theory Spec2Isabelle
  imports Main "HOL-Library.Word" "HOL-Library.Sublist"
begin

section \<open>Go strings and errors\<close>

text \<open>
  A Go \<^verbatim>\<open>string\<close> is a sequence of bytes, and so is a HOL \<^typ>\<open>string\<close>.
  The functions of package \<^verbatim>\<open>strings\<close> that the sources call are written out as the
  library defines them.
\<close>

text \<open>\<^verbatim>\<open>strings.HasPrefix(s, prefix)\<close>:
  \<^verbatim>\<open>len(s) >= len(prefix) && s[:len(prefix)] == prefix\<close>.\<close>

definition strings_HasPrefix :: "string \<Rightarrow> string \<Rightarrow> bool" where
  "strings_HasPrefix s pre = (length pre \<le> length s \<and> take (length pre) s = pre)"

text \<open>\<^verbatim>\<open>strings.TrimPrefix(s, prefix)\<close>: \<^verbatim>\<open>s[len(prefix):]\<close> when \<^verbatim>\<open>s\<close> has the
  prefix, \<^verbatim>\<open>s\<close> otherwise.\<close>

definition strings_TrimPrefix :: "string \<Rightarrow> string \<Rightarrow> string" where
  "strings_TrimPrefix s pre = (if strings_HasPrefix s pre then drop (length pre) s else s)"

text \<open>\<^verbatim>\<open>strings.Contains(s, substr)\<close> is \<^verbatim>\<open>strings.Index(s, substr) >= 0\<close>: some
  position of \<^verbatim>\<open>s\<close> starts an occurrence of \<^verbatim>\<open>substr\<close>. The positions are tried from
  the left.\<close>

fun strings_Contains :: "string \<Rightarrow> string \<Rightarrow> bool" where
  "strings_Contains [] substr = (substr = [])"
| "strings_Contains (c # s) substr =
     (strings_HasPrefix (c # s) substr \<or> strings_Contains s substr)"

text \<open>
  A Go \<^verbatim>\<open>error\<close> is an interface value; \<^verbatim>\<open>nil\<close> is \<^const>\<open>None\<close> of
  \<^typ>\<open>'a option\<close>. An error made by a collaborator is kept by its message
  (\<open>ErrorString\<close>). The errors that the sources build themselves keep their parts:
  \<^verbatim>\<open>errors.Errorf(format, args...)\<close> is \<open>Errorf format args\<close> and
  \<^verbatim>\<open>errors.Wrapf(err, format, args...)\<close> with a non-nil \<^verbatim>\<open>err\<close> is
  \<open>Wrapf err format args\<close>, the cause first; \<^verbatim>\<open>fmt.Errorf\<close> without the verb
  \<^verbatim>\<open>%w\<close> is \<open>Errorf\<close> as well. An argument is a string or an error. The stack trace
  that package \<^verbatim>\<open>github.com/pkg/errors\<close> attaches is left out.
\<close>

datatype error =
    ErrorString string
  | Errorf string "fmt_arg list"
  | Wrapf error string "fmt_arg list"
and fmt_arg =
    Str string
  | Err error

text \<open>
  The method \<^verbatim>\<open>Error()\<close>. Formatting (\<^verbatim>\<open>fmt.Sprintf\<close>) is a parameter. The message
  of a wrapped error is the formatted message, \<^verbatim>\<open>": "\<close>, and the message of the cause
  (\<^verbatim>\<open>withMessage.Error\<close> of package \<^verbatim>\<open>errors\<close>).
\<close>

fun Error_msg :: "(string \<Rightarrow> fmt_arg list \<Rightarrow> string) \<Rightarrow> error \<Rightarrow> string" where
  "Error_msg Sprintf (ErrorString m) = m"
| "Error_msg Sprintf (Errorf format args) = Sprintf format args"
| "Error_msg Sprintf (Wrapf cause format args) =
     Sprintf format args @ '': '' @ Error_msg Sprintf cause"

text \<open>
  A function that dereferences a nil pointer panics. A panic is an outcome of its own,
  beside a normal return.
\<close>

datatype 'a outcome = Return 'a | Panic


section \<open>The compute agent service (internal/uvm/computeagent.go)\<close>

text \<open>
  \<^verbatim>\<open>computeagent.AddNICInternalRequest\<close> and \<^verbatim>\<open>computeagent.DeleteNICInternalRequest\<close>
  are two generated message types with the same three string fields; one record stands
  for both. The two response types have no fields.
\<close>

record NICInternalRequest =
  ContainerID :: string
  NicID :: string
  EndpointName :: string

type_synonym AddNICInternalRequest = NICInternalRequest
type_synonym DeleteNICInternalRequest = NICInternalRequest

datatype AddNICInternalResponse = AddNICInternalResponse
datatype DeleteNICInternalResponse = DeleteNICInternalResponse

text \<open>
  Of \<^verbatim>\<open>hns.HNSEndpoint\<close> the service reads one field, \<^verbatim>\<open>Namespace\<close>, which package
  \<^verbatim>\<open>hns\<close> declares as a pointer (\<^verbatim>\<open>*Namespace\<close>): \<^verbatim>\<open>endpoint.Namespace.ID\<close> panics
  when it is nil. The other fields of the endpoint travel with it unread, as \<open>Rest\<close>.
\<close>

record hns_Namespace =
  ID :: string

record 'r HNSEndpoint =
  Namespace :: "hns_Namespace option"
  Rest :: 'r

text \<open>
  The collaborators of the service: the lookup of package \<^verbatim>\<open>hns\<close> and the two methods of
  the hosting \<^verbatim>\<open>UtilityVM\<close>. Each returns what it returns; the service calls each at
  most once in a request. The context argument is not modelled.
\<close>

record 'r nic_env =
  GetHNSEndpointByName :: "string \<Rightarrow> error + 'r HNSEndpoint"
  AddEndpointToNSWithID :: "string \<Rightarrow> string \<Rightarrow> 'r HNSEndpoint \<Rightarrow> error option"
  RemoveEndpointFromNS :: "string \<Rightarrow> 'r HNSEndpoint \<Rightarrow> error option"

text \<open>What a request does besides returning: the calls it makes, in order, and the log
  entries it writes (message and fields).\<close>

datatype 'r nic_call =
    Call_GetHNSEndpointByName string
  | Call_AddEndpointToNSWithID string string "'r HNSEndpoint"
  | Call_RemoveEndpointFromNS string "'r HNSEndpoint"

type_synonym log_entry = "string \<times> (string \<times> string) list"

record ('a, 'r) nic_result =
  returned :: "('a option \<times> error option) outcome"
  calls :: "'r nic_call list"
  logged :: "log_entry list"

definition AddNIC ::
  "'r nic_env \<Rightarrow> AddNICInternalRequest \<Rightarrow> (AddNICInternalResponse, 'r) nic_result" where
  "AddNIC ca req =
    (let lg = [(''AddNIC request'',
                 [(''containerID'', ContainerID req),
                  (''endpointID'', EndpointName req),
                  (''nicID'', NicID req)])];
         c1 = [Call_GetHNSEndpointByName (EndpointName req)]
     in case GetHNSEndpointByName ca (EndpointName req) of
          Inl err \<Rightarrow>
            \<lparr>returned = Return (None,
                 Some (Wrapf err ''failed to get endpoint with name %q'' [Str (EndpointName req)])),
             calls = c1, logged = lg\<rparr>
        | Inr endpoint \<Rightarrow>
            (case Namespace endpoint of
               None \<Rightarrow> \<lparr>returned = Panic, calls = c1, logged = lg\<rparr>
             | Some ns \<Rightarrow>
                 (let c2 = c1 @ [Call_AddEndpointToNSWithID (ID ns) (NicID req) endpoint]
                  in case AddEndpointToNSWithID ca (ID ns) (NicID req) endpoint of
                       Some err \<Rightarrow>
                         \<lparr>returned = Return (None, Some err), calls = c2, logged = lg\<rparr>
                     | None \<Rightarrow>
                         \<lparr>returned = Return (Some AddNICInternalResponse, None),
                          calls = c2, logged = lg\<rparr>)))"

definition DeleteNIC ::
  "'r nic_env \<Rightarrow> DeleteNICInternalRequest \<Rightarrow> (DeleteNICInternalResponse, 'r) nic_result" where
  "DeleteNIC ca req =
    (let lg = [(''DeleteNIC request'',
                 [(''containerID'', ContainerID req),
                  (''nicID'', NicID req),
                  (''endpointName'', EndpointName req)])];
         c1 = [Call_GetHNSEndpointByName (EndpointName req)]
     in case GetHNSEndpointByName ca (EndpointName req) of
          Inl err \<Rightarrow>
            \<lparr>returned = Return (None,
                 Some (Wrapf err ''failed to get endpoint with name %q'' [Str (EndpointName req)])),
             calls = c1, logged = lg\<rparr>
        | Inr endpoint \<Rightarrow>
            (case Namespace endpoint of
               None \<Rightarrow> \<lparr>returned = Panic, calls = c1, logged = lg\<rparr>
             | Some ns \<Rightarrow>
                 (let c2 = c1 @ [Call_RemoveEndpointFromNS (ID ns) endpoint]
                  in case RemoveEndpointFromNS ca (ID ns) endpoint of
                       Some err \<Rightarrow>
                         \<lparr>returned = Return (None, Some err), calls = c2, logged = lg\<rparr>
                     | None \<Rightarrow>
                         \<lparr>returned = Return (Some DeleteNICInternalResponse, None),
                          calls = c2, logged = lg\<rparr>)))"

text \<open>\<^verbatim>\<open>trapClosedConnErr\<close>: the \<^verbatim>\<open>||\<close> of the source does not call \<^verbatim>\<open>err.Error()\<close> on a
  nil error.\<close>

definition trapClosedConnErr ::
  "(string \<Rightarrow> fmt_arg list \<Rightarrow> string) \<Rightarrow> error option \<Rightarrow> error option" where
  "trapClosedConnErr Sprintf err =
    (case err of
       None \<Rightarrow> None
     | Some e \<Rightarrow>
         if strings_Contains (Error_msg Sprintf e) ''use of closed network connection''
         then None else err)"

text \<open>
  The task that \<^verbatim>\<open>setupAndServe\<close> starts runs \<^verbatim>\<open>s.Serve(ctx, l)\<close> and looks at the
  trapped result. With nil it falls off its end, and the deferred \<^verbatim>\<open>l.Close()\<close> runs.
  Otherwise it logs at level Fatal, which ends the process (the logger exits with
  status 1; deferred calls do not run).
\<close>

datatype serve_end = Listener_closed | Process_exit error

definition serve_task ::
  "(string \<Rightarrow> fmt_arg list \<Rightarrow> string) \<Rightarrow> error option \<Rightarrow> serve_end" where
  "serve_task Sprintf serve_result =
    (case trapClosedConnErr Sprintf serve_result of
       None \<Rightarrow> Listener_closed
     | Some err \<Rightarrow> Process_exit err)"

text \<open>
  \<^verbatim>\<open>setupAndServe\<close>: the two set-up steps can fail (\<open>listen\<close> is the error of
  \<^verbatim>\<open>winio.ListenPipe\<close>, \<open>new_server\<close> that of \<^verbatim>\<open>ttrpc.NewServer\<close>); then no task is
  started. Otherwise the task is started and nil is returned at once; the second
  component is how the task ends, given what \<^verbatim>\<open>s.Serve\<close> returns to it.
\<close>

definition setupAndServe ::
  "(string \<Rightarrow> fmt_arg list \<Rightarrow> string) \<Rightarrow> string \<Rightarrow> error option \<Rightarrow> error option \<Rightarrow>
     error option \<Rightarrow> error option \<times> serve_end option" where
  "setupAndServe Sprintf caAddr listen new_server serve_result =
    (case listen of
       Some err \<Rightarrow> (Some (Wrapf err ''failed to listen on %s'' [Str caAddr]), None)
     | None \<Rightarrow>
         (case new_server of
            Some err \<Rightarrow> (Some err, None)
          | None \<Rightarrow> (None, Some (serve_task Sprintf serve_result))))"

text \<open>Environments used below at concrete inputs.\<close>

definition ep1 :: "string HNSEndpoint" where
  "ep1 = \<lparr>Namespace = Some \<lparr>ID = ''ns-1''\<rparr>, Rest = ''eth-test''\<rparr>"

definition nic_env_ok :: "string nic_env" where
  "nic_env_ok =
    \<lparr>GetHNSEndpointByName =
       (\<lambda>n. if n = ''eth-test'' then Inr ep1 else Inl (ErrorString ''Endpoint not found'')),
     AddEndpointToNSWithID = (\<lambda>ns nic ep. None),
     RemoveEndpointFromNS = (\<lambda>ns ep. None)\<rparr>"

definition nic_env_fail :: "string nic_env" where
  "nic_env_fail =
    \<lparr>GetHNSEndpointByName =
       (\<lambda>n. if n = ''eth-test'' then Inr ep1 else Inl (ErrorString ''Endpoint not found'')),
     AddEndpointToNSWithID = (\<lambda>ns nic ep. Some (ErrorString ''guest request failed'')),
     RemoveEndpointFromNS = (\<lambda>ns ep. Some (ErrorString ''guest request failed''))\<rparr>"

definition req1 :: NICInternalRequest where
  "req1 = \<lparr>ContainerID = ''c1'', NicID = ''nic-1'', EndpointName = ''eth-test''\<rparr>"

definition req_missing :: NICInternalRequest where
  "req_missing = \<lparr>ContainerID = ''c1'', NicID = ''nic-1'', EndpointName = ''eth-none''\<rparr>"


section \<open>Splitting a path (path/filepath)\<close>

text \<open>
  \<^verbatim>\<open>filepath.Split\<close> depends on the platform in two ways: which bytes separate path
  elements (\<^verbatim>\<open>os.IsPathSeparator\<close>) and how long the leading volume name of a path is
  (\<^verbatim>\<open>len(filepath.VolumeName(path))\<close>; always 0 on Unix). Both are parameters.
\<close>

record platform =
  IsPathSeparator :: "char \<Rightarrow> bool"
  volumeNameLen :: "string \<Rightarrow> nat"

text \<open>
  The loop of \<^verbatim>\<open>Split\<close>:
  \<^verbatim>\<open>i := len(path) - 1; for i >= len(vol) && !os.IsPathSeparator(path[i]) { i-- }\<close>.
  The last argument of \<open>split_scan\<close> is \<^verbatim>\<open>i + 1\<close>, so that it is a natural number also
  when \<^verbatim>\<open>i\<close> reaches \<^verbatim>\<open>-1\<close>; the result is the final \<^verbatim>\<open>i + 1\<close>.
\<close>

fun split_scan :: "(char \<Rightarrow> bool) \<Rightarrow> nat \<Rightarrow> string \<Rightarrow> nat \<Rightarrow> nat" where
  "split_scan isSep vol path 0 = 0"
| "split_scan isSep vol path (Suc i) =
     (if vol \<le> i \<and> \<not> isSep (path ! i) then split_scan isSep vol path i else Suc i)"

text \<open>\<^verbatim>\<open>return path[:i+1], path[i+1:]\<close>\<close>

definition filepath_Split :: "platform \<Rightarrow> string \<Rightarrow> string \<times> string" where
  "filepath_Split pf path =
    (let k = split_scan (IsPathSeparator pf) (volumeNameLen pf path) path (length path)
     in (take k path, drop k path))"

text \<open>
  The platform at the concrete inputs below: the separators of Windows, and paths that
  start with a drive letter and a colon, whose volume name has length 2.
\<close>

definition drive_paths :: platform where
  "drive_paths =
    \<lparr>IsPathSeparator = (\<lambda>c. c = CHR 0x5C \<or> c = CHR ''/''), volumeNameLen = (\<lambda>path. 2)\<rparr>"


section \<open>Sharing a host path into the UVM (internal/uvm/share.go)\<close>

text \<open>
  Modelled from the spec: the declarations of packages \<^verbatim>\<open>guestrequest\<close>,
  \<^verbatim>\<open>requesttype\<close> and \<^verbatim>\<open>schema2\<close> are not among the sources. The spec gives the
  message as \<^verbatim>\<open>{resourceType in {MappedDirectory, ...}, operation in {Add, Remove},
  settings}\<close>, with the settings of a mapped directory
  \<^verbatim>\<open>{hostVisiblePath, guestPath, readOnly}\<close>; the field names are those that
  \<^verbatim>\<open>Share\<close> writes.
\<close>

datatype ResourceType = ResourceTypeMappedDirectory | ResourceTypeOther string

datatype RequestType = Add | Remove

record MappedDirectory =
  HostPath :: string
  ContainerPath :: string
  ReadOnly :: bool

record GuestRequest =
  ResourceType :: ResourceType
  RequestType :: RequestType
  Settings :: MappedDirectory

text \<open>Of the \<^verbatim>\<open>os.FileInfo\<close> that \<^verbatim>\<open>os.Stat\<close> returns, \<^verbatim>\<open>Share\<close> reads \<^verbatim>\<open>IsDir()\<close>.\<close>

record FileInfo =
  IsDir :: bool

text \<open>
  What \<^verbatim>\<open>Share\<close> calls: methods of the \<^verbatim>\<open>UtilityVM\<close> that are not among the sources,
  and \<^verbatim>\<open>os.Stat\<close>. Each is a function from its arguments to what it returns;
  \<^verbatim>\<open>Share\<close> calls each at most once. \<open>SendGuestRequest\<close> is the method
  \<^verbatim>\<open>uvm.GuestRequest\<close>, the name \<open>GuestRequest\<close> being that of the message. The types
  of the VSMB options, of a VSMB share and of a Plan9 share are parameters (\<open>'o\<close>,
  \<open>'v\<close>, \<open>'p\<close>).
\<close>

record ('o, 'v, 'p) uvm_env =
  OS :: string
  DefaultVSMBOptions :: "bool \<Rightarrow> 'o"
  AddVSMB :: "string \<Rightarrow> 'o \<Rightarrow> error + 'v"
  GetVSMBUvmPath :: "string \<Rightarrow> bool \<Rightarrow> error + string"
  SendGuestRequest :: "GuestRequest \<Rightarrow> error option"
  os_Stat :: "string \<Rightarrow> error + FileInfo"
  AddPlan9 :: "string \<Rightarrow> string \<Rightarrow> bool \<Rightarrow> bool \<Rightarrow> string list \<Rightarrow> error + 'p"
  uvm_paths :: platform

text \<open>The calls with an effect, as they appear in the trace of one \<^verbatim>\<open>Share\<close>.
  \<^verbatim>\<open>vsmbShare.Release(ctx)\<close> and \<^verbatim>\<open>plan9Share.Release(ctx)\<close> are the two releases;
  their errors are dropped by the source.\<close>

datatype ('o, 'v, 'p) share_call =
    Call_AddVSMB string 'o
  | Call_GetVSMBUvmPath string bool
  | Call_GuestRequest GuestRequest
  | Call_Release_VSMB 'v
  | Call_Stat string
  | Call_AddPlan9 string string bool bool "string list"
  | Call_Release_Plan9 'p

text \<open>
  The deferred closure \<^verbatim>\<open>func() { if err != nil { share.Release(ctx) } }\<close>, run when
  \<^verbatim>\<open>Share\<close> returns. Its first argument is the value, at that moment, of the variable
  \<^verbatim>\<open>err\<close> that the closure refers to.
\<close>

definition deferred_release :: "error option \<Rightarrow> 'c \<Rightarrow> 'c list" where
  "deferred_release err release = (if err \<noteq> None then [release] else [])"

text \<open>
  \<^verbatim>\<open>Share\<close> returns its error and the trace of the calls it made.

  Three variables of the Windows branch are called \<^verbatim>\<open>err\<close>. The result parameter
  \<^verbatim>\<open>(err error)\<close> belongs to the function's scope. \<^verbatim>\<open>vsmbShare, err := uvm.AddVSMB(...)\<close>
  (line 19) is a short variable declaration inside the block of the \<^verbatim>\<open>if\<close>, where no
  \<^verbatim>\<open>err\<close> was declared before: it declares a second variable, which hides the result
  parameter in the rest of the block. The deferred closure (lines 23 to 27) is written
  in that block, so it reads the second variable. \<^verbatim>\<open>sharePath, err :=\<close> (line 29)
  assigns the second variable again, since the block has it already.
  \<^verbatim>\<open>if err := uvm.GuestRequest(ctx, guestReq); err != nil\<close> (line 42) declares a third
  variable, whose scope is that \<^verbatim>\<open>if\<close> statement; \<^verbatim>\<open>return err\<close> there copies it into
  the result parameter and leaves the second variable as it was, namely nil. Below,
  \<open>block_err\<close> is the second variable.

  In the other branch \<^verbatim>\<open>st, err := os.Stat(...)\<close> declares the variable of that block,
  \<^verbatim>\<open>plan9Share, err :=\<close> assigns it, and the closure deferred after it reads it; it is
  nil from then on.
\<close>

definition Share ::
  "('o, 'v, 'p) uvm_env \<Rightarrow> string \<Rightarrow> string \<Rightarrow> bool \<Rightarrow>
     error option \<times> ('o, 'v, 'p) share_call list" where
  "Share uvm reqHostPath reqUVMPath readOnly =
    (if OS uvm = ''windows'' then
       (let options = DefaultVSMBOptions uvm readOnly;
            t1 = [Call_AddVSMB reqHostPath options]
        in case AddVSMB uvm reqHostPath options of
             Inl err \<Rightarrow> (Some err, t1)
           | Inr vsmbShare \<Rightarrow>
               (let t2 = t1 @ [Call_GetVSMBUvmPath reqHostPath readOnly]
                in case GetVSMBUvmPath uvm reqHostPath readOnly of
                     Inl err \<Rightarrow>
                       (let block_err = Some err
                        in (Some err,
                            t2 @ deferred_release block_err (Call_Release_VSMB vsmbShare)))
                   | Inr sharePath \<Rightarrow>
                       (let block_err = None;
                            guestReq =
                              \<lparr>ResourceType = ResourceTypeMappedDirectory,
                               RequestType = Add,
                               Settings = \<lparr>HostPath = sharePath,
                                           ContainerPath = reqUVMPath,
                                           ReadOnly = readOnly\<rparr>\<rparr>;
                            t3 = t2 @ [Call_GuestRequest guestReq]
                        in case SendGuestRequest uvm guestReq of
                             Some err \<Rightarrow>
                               (Some err,
                                t3 @ deferred_release block_err (Call_Release_VSMB vsmbShare))
                           | None \<Rightarrow>
                               (None,
                                t3 @ deferred_release block_err
                                       (Call_Release_VSMB vsmbShare)))))
     else
       (let t1 = [Call_Stat reqHostPath]
        in case os_Stat uvm reqHostPath of
             Inl err \<Rightarrow>
               (Some (Errorf ''could not open '%s' path on host: %s''
                        [Str reqHostPath, Err err]), t1)
           | Inr st \<Rightarrow>
               (let (hostPath, restrictAccess, allowedNames) =
                      (if \<not> IsDir st
                       then (let (dir, fileName) = filepath_Split (uvm_paths uvm) reqHostPath
                             in (dir, True, [fileName]))
                       else (reqHostPath, False, []));
                    t2 = t1 @ [Call_AddPlan9 hostPath reqUVMPath readOnly restrictAccess
                                 allowedNames]
                in case AddPlan9 uvm hostPath reqUVMPath readOnly restrictAccess
                          allowedNames of
                     Inl err \<Rightarrow> (Some err, t2)
                   | Inr plan9Share \<Rightarrow>
                       (let block_err = None
                        in (None,
                            t2 @ deferred_release block_err
                                   (Call_Release_Plan9 plan9Share))))))"

text \<open>What a trace shows: the guest requests sent, and which mechanism a call
  belongs to.\<close>

fun guest_requests :: "('o, 'v, 'p) share_call list \<Rightarrow> GuestRequest list" where
  "guest_requests [] = []"
| "guest_requests (Call_GuestRequest r # cs) = r # guest_requests cs"
| "guest_requests (c # cs) = guest_requests cs"

fun is_VSMB_call :: "('o, 'v, 'p) share_call \<Rightarrow> bool" where
  "is_VSMB_call (Call_AddVSMB p opts) = True"
| "is_VSMB_call (Call_GetVSMBUvmPath p ro) = True"
| "is_VSMB_call (Call_Release_VSMB s) = True"
| "is_VSMB_call c = False"

fun is_Plan9_call :: "('o, 'v, 'p) share_call \<Rightarrow> bool" where
  "is_Plan9_call (Call_AddPlan9 h g ro ra names) = True"
| "is_Plan9_call (Call_Release_Plan9 s) = True"
| "is_Plan9_call c = False"

text \<open>
  Environments at concrete inputs. A VSMB or Plan9 share is named by the host path it
  was added for; the VSMB options are the read-only flag. In \<open>uvm_windows\<close> every step
  succeeds but the guest request; in \<open>uvm_windows_no_path\<close> the computation of the guest
  path fails; in \<open>uvm_windows_no_share\<close> the allocation fails. \<open>uvm_linux\<close> knows one
  file and one directory.
\<close>

definition uvm_windows :: "(bool, string, string) uvm_env" where
  "uvm_windows =
    \<lparr>OS = ''windows'',
     DefaultVSMBOptions = (\<lambda>ro. ro),
     AddVSMB = (\<lambda>p opts. Inr p),
     GetVSMBUvmPath = (\<lambda>p ro. Inr (''vsmb-'' @ p)),
     SendGuestRequest = (\<lambda>r. Some (ErrorString ''guest request failed'')),
     os_Stat = (\<lambda>p. Inl (ErrorString ''not found'')),
     AddPlan9 = (\<lambda>h g ro ra names. Inl (ErrorString ''not supported'')),
     uvm_paths = drive_paths\<rparr>"

definition uvm_windows_no_path :: "(bool, string, string) uvm_env" where
  "uvm_windows_no_path =
     uvm_windows\<lparr>GetVSMBUvmPath := (\<lambda>p ro. Inl (ErrorString ''share not found''))\<rparr>"

definition uvm_windows_no_share :: "(bool, string, string) uvm_env" where
  "uvm_windows_no_share =
     uvm_windows\<lparr>AddVSMB := (\<lambda>p opts. Inl (ErrorString ''access denied''))\<rparr>"

definition uvm_linux :: "(bool, string, string) uvm_env" where
  "uvm_linux =
    \<lparr>OS = ''linux'',
     DefaultVSMBOptions = (\<lambda>ro. ro),
     AddVSMB = (\<lambda>p opts. Inl (ErrorString ''not supported'')),
     GetVSMBUvmPath = (\<lambda>p ro. Inl (ErrorString ''not supported'')),
     SendGuestRequest = (\<lambda>r. None),
     os_Stat = (\<lambda>p. if p = ''C:/data/conf/app.json'' then Inr \<lparr>IsDir = False\<rparr>
                     else if p = ''C:/data/conf'' then Inr \<lparr>IsDir = True\<rparr>
                     else Inl (ErrorString ''not found'')),
     AddPlan9 = (\<lambda>h g ro ra names. Inr h),
     uvm_paths = drive_paths\<rparr>"


section \<open>Layer descriptors (package wclayer)\<close>

text \<open>
  \<^verbatim>\<open>WC_LAYER_DESCRIPTOR\<close>. The type of a GUID and the type of what \<^verbatim>\<open>Pathp\<close> points to
  (a NUL-terminated UTF-16 string) are parameters; \<^verbatim>\<open>Flags\<close> is a \<^verbatim>\<open>uint32\<close>.
\<close>

record ('g, 'u) WC_LAYER_DESCRIPTOR =
  LayerId :: 'g
  Flags :: "32 word"
  Pathp :: 'u

text \<open>
  \<^verbatim>\<open>NameToGuid\<close> is a function of the package that is not among the sources, and
  \<^verbatim>\<open>syscall.UTF16PtrFromString\<close> belongs to the standard library; both are parameters,
  with the platform of the paths.
\<close>

record ('g, 'u) layer_env =
  NameToGuid :: "string \<Rightarrow> error + 'g"
  UTF16PtrFromString :: "string \<Rightarrow> error + 'u"
  layer_paths :: platform

text \<open>
  One round of the loop of \<^verbatim>\<open>layerPathsToDescriptors\<close>, for the path
  \<^verbatim>\<open>parentLayerPaths[i]\<close>: the descriptor to append, or the error to return. The
  debug log lines are left out.
\<close>

definition layer_descriptor ::
  "('g, 'u) layer_env \<Rightarrow> string \<Rightarrow> error + ('g, 'u) WC_LAYER_DESCRIPTOR" where
  "layer_descriptor env path =
    (let (dir, folderName) = filepath_Split (layer_paths env) path
     in case NameToGuid env folderName of
          Inl err \<Rightarrow> Inl err
        | Inr g \<Rightarrow>
            (case UTF16PtrFromString env path of
               Inl err \<Rightarrow> Inl err
             | Inr p \<Rightarrow> Inr \<lparr>LayerId = g, Flags = 0, Pathp = p\<rparr>))"

text \<open>
  The loop, from index \<^verbatim>\<open>i\<close> on: the first argument is what is left of
  \<^verbatim>\<open>parentLayerPaths\<close>, the second is \<^verbatim>\<open>layers\<close>. A nil slice and an empty slice are
  both the empty list.
\<close>

fun layerPathsToDescriptors_from ::
  "('g, 'u) layer_env \<Rightarrow> string list \<Rightarrow> ('g, 'u) WC_LAYER_DESCRIPTOR list \<Rightarrow>
     ('g, 'u) WC_LAYER_DESCRIPTOR list \<times> error option" where
  "layerPathsToDescriptors_from env [] layers = (layers, None)"
| "layerPathsToDescriptors_from env (path # rest) layers =
     (case layer_descriptor env path of
        Inl err \<Rightarrow> ([], Some err)
      | Inr d \<Rightarrow> layerPathsToDescriptors_from env rest (layers @ [d]))"

definition layerPathsToDescriptors ::
  "('g, 'u) layer_env \<Rightarrow> string list \<Rightarrow>
     ('g, 'u) WC_LAYER_DESCRIPTOR list \<times> error option" where
  "layerPathsToDescriptors env parentLayerPaths =
     layerPathsToDescriptors_from env parentLayerPaths []"

text \<open>An environment at concrete inputs: the GUID of a name is the name itself, the
  empty name has none; a path with a NUL byte has no UTF-16 pointer.\<close>

definition layer_env1 :: "(string, string) layer_env" where
  "layer_env1 =
    \<lparr>NameToGuid = (\<lambda>n. if n = [] then Inl (ErrorString ''empty name'') else Inr n),
     UTF16PtrFromString =
       (\<lambda>s. if CHR 0x00 \<in> set s then Inl (ErrorString ''invalid argument'') else Inr s),
     layer_paths = drive_paths\<rparr>"


section \<open>Cleaning and joining paths on Unix (path/filepath)\<close>

text \<open>
  Package \<^verbatim>\<open>hcsv2\<close> runs in the Linux guest: the separator is \<^verbatim>\<open>/\<close>, there are no
  volume names, and \<^verbatim>\<open>FromSlash\<close> changes nothing.

  \<^verbatim>\<open>strings.Join(elems, sep)\<close>:
\<close>

fun strings_Join :: "string list \<Rightarrow> string \<Rightarrow> string" where
  "strings_Join [] sep = []"
| "strings_Join [e] sep = e"
| "strings_Join (e # es) sep = e @ sep @ strings_Join es sep"

text \<open>
  \<^verbatim>\<open>filepath.Clean\<close> writes into a buffer \<^verbatim>\<open>out\<close> with a write index \<^verbatim>\<open>out.w\<close>; the
  model's \<open>out\<close> is the first \<^verbatim>\<open>out.w\<close> bytes of it. Backing up over a \<^verbatim>\<open>..\<close> element is
  \<^verbatim>\<open>out.w--; for out.w > dotdot && !os.IsPathSeparator(out.index(out.w)) { out.w-- }\<close>:
  \<open>clean_backtrack dotdot out w\<close> runs the \<^verbatim>\<open>for\<close> from \<^verbatim>\<open>out.w = w\<close> and gives the
  final \<^verbatim>\<open>out.w\<close>.
\<close>

fun clean_backtrack :: "nat \<Rightarrow> string \<Rightarrow> nat \<Rightarrow> nat" where
  "clean_backtrack dotdot out 0 = 0"
| "clean_backtrack dotdot out (Suc w) =
     (if dotdot < Suc w \<and> out ! (Suc w) \<noteq> CHR ''/''
      then clean_backtrack dotdot out w else Suc w)"

text \<open>
  The main loop \<^verbatim>\<open>for r < n\<close> of \<^verbatim>\<open>Clean\<close>. The last argument is \<^verbatim>\<open>path[r:]\<close>, what
  is still to read. The four cases of the \<^verbatim>\<open>switch\<close> are, in its order: an empty
  element; a \<^verbatim>\<open>.\<close> element; a \<^verbatim>\<open>..\<close> element (back up if possible, else keep it when
  the path is not rooted, else drop it); a real element, copied up to the next
  separator after a separator of its own if the buffer needs one.
\<close>

function clean_loop :: "bool \<Rightarrow> string \<Rightarrow> nat \<Rightarrow> string \<Rightarrow> string" where
  "clean_loop rooted out dotdot [] = out"
| "clean_loop rooted out dotdot (c # cs) =
     (if c = CHR ''/'' then clean_loop rooted out dotdot cs
      else if c = CHR ''.'' \<and> (cs = [] \<or> hd cs = CHR ''/'')
      then clean_loop rooted out dotdot cs
      else if c = CHR ''.'' \<and> hd cs = CHR ''.'' \<and> (tl cs = [] \<or> hd (tl cs) = CHR ''/'')
      then
        (if dotdot < length out
         then clean_loop rooted
                (take (clean_backtrack dotdot out (length out - 1)) out) dotdot (tl cs)
         else if \<not> rooted
         then (let out' = (if 0 < length out then out @ ''/'' else out) @ ''..''
               in clean_loop rooted out' (length out') (tl cs))
         else clean_loop rooted out dotdot (tl cs))
      else
        (let out' = (if rooted \<and> length out \<noteq> 1 \<or> \<not> rooted \<and> length out \<noteq> 0
                     then out @ ''/'' else out)
         in clean_loop rooted (out' @ takeWhile (\<lambda>x. x \<noteq> CHR ''/'') (c # cs)) dotdot
              (dropWhile (\<lambda>x. x \<noteq> CHR ''/'') (c # cs))))"
  by pat_completeness auto
termination
proof (relation "measure (\<lambda>(rooted, out, dotdot, rest). length rest)")
  fix c :: char and cs :: string
  assume "c \<noteq> CHR ''/''"
  then have "length (dropWhile (\<lambda>x. x \<noteq> CHR ''/'') (c # cs)) \<le> length cs"
    by (simp add: length_dropWhile_le)
  then show "((rooted, out' @ takeWhile (\<lambda>x. x \<noteq> CHR ''/'') (c # cs), dotdot,
               dropWhile (\<lambda>x. x \<noteq> CHR ''/'') (c # cs)),
              (rooted, out, dotdot, c # cs))
             \<in> measure (\<lambda>(rooted, out, dotdot, rest). length rest)"
    for rooted out out' dotdot
    by simp
qed auto

text \<open>\<^verbatim>\<open>filepath.Clean\<close>: the empty path is \<^verbatim>\<open>.\<close>; a rooted path starts the buffer with
  its separator (\<^verbatim>\<open>r, dotdot = 1, 1\<close>); an empty result is \<^verbatim>\<open>.\<close>.\<close>

definition filepath_Clean :: "string \<Rightarrow> string" where
  "filepath_Clean path =
    (if path = [] then ''.''
     else (let rooted = (hd path = CHR ''/'');
               out = (if rooted then clean_loop True ''/'' 1 (tl path)
                      else clean_loop False [] 0 path)
           in if out = [] then ''.'' else out))"

text \<open>\<^verbatim>\<open>filepath.Join\<close>: leading empty elements are skipped, the rest is joined with the
  separator and cleaned; with no element left the result is empty.\<close>

fun filepath_Join :: "string list \<Rightarrow> string" where
  "filepath_Join [] = []"
| "filepath_Join (e # es) =
     (if e \<noteq> [] then filepath_Clean (strings_Join (e # es) ''/'') else filepath_Join es)"


section \<open>The workload container spec (package hcsv2)\<close>

text \<open>
  The parts of \<^verbatim>\<open>oci.Spec\<close> that \<^verbatim>\<open>setupWorkloadContainerSpec\<close> reads or writes.
  \<^verbatim>\<open>Linux\<close>, \<^verbatim>\<open>Linux.Resources\<close> and \<^verbatim>\<open>Windows\<close> are pointers, nil being \<open>None\<close>. The
  fields of the spec that the function itself does not touch (\<^verbatim>\<open>Process\<close>, \<^verbatim>\<open>Root\<close>
  and others) are \<open>Other\<close>; the helpers that are parameters below may read or change
  them. The type of a device and its numbers are as in the runtime spec: \<^verbatim>\<open>Type\<close> is a
  string, \<^verbatim>\<open>Major\<close> and \<^verbatim>\<open>Minor\<close> are \<^verbatim>\<open>int64\<close>, \<^verbatim>\<open>UID\<close> and \<^verbatim>\<open>GID\<close> point to a
  \<^verbatim>\<open>uint32\<close>. Fields of a device or of a cgroup rule that the function leaves at their
  zero value are not listed.
\<close>

record Mount =
  Destination :: string
  Type :: string
  Source :: string
  Options :: "string list"

record LinuxDevice =
  Path :: string
  DeviceType :: string
  Major :: "64 word"
  Minor :: "64 word"
  UID :: "32 word option"
  GID :: "32 word option"

record LinuxDeviceCgroup =
  Allow :: bool
  Access :: string

record LinuxResources =
  ResourcesDevices :: "LinuxDeviceCgroup list"

record Linux =
  Devices :: "LinuxDevice list"
  Resources :: "LinuxResources option"

record ('w, 'x) Spec =
  Hostname :: string
  Mounts :: "Mount list"
  Annotations :: "string \<rightharpoonup> string"
  Linux :: "Linux option"
  Windows :: "'w option"
  Other :: 'x

text \<open>A device as \<^verbatim>\<open>devices.HostDevices()\<close> lists it; \<open>HostType\<close> is
  \<^verbatim>\<open>string(hostDevice.Type)\<close>.\<close>

record HostDevice =
  HostPath_dev :: string
  HostType :: string
  HostMajor :: "64 word"
  HostMinor :: "64 word"
  Uid :: "32 word"
  Gid :: "32 word"

text \<open>
  What the two functions call and is not among the sources. The path helpers
  (\<^verbatim>\<open>getSandboxMountsDir\<close> and the three \<^verbatim>\<open>getSandbox...Path\<close>), \<^verbatim>\<open>isInMounts\<close>,
  \<^verbatim>\<open>isRootReadonly\<close> and \<^verbatim>\<open>setUserStr\<close> belong to the package; \<^verbatim>\<open>setUserStr\<close> changes
  the spec it is given and returns an error or nil. \<^verbatim>\<open>devices.HostDevices\<close> is a
  library function. The file system is a state \<open>'fs\<close>: \<open>Stat_IsNotExist fs p\<close> is
  \<^verbatim>\<open>os.IsNotExist(err)\<close> for the \<^verbatim>\<open>err\<close> of \<^verbatim>\<open>os.Stat(p)\<close>, and \<open>MkdirAll fs p\<close> is
  \<^verbatim>\<open>os.MkdirAll(p, 0755)\<close>, with the file system it leaves.
\<close>

record ('w, 'x, 'fs) guest_env =
  getSandboxMountsDir :: "string \<Rightarrow> string"
  getSandboxHostnamePath :: "string \<Rightarrow> string"
  getSandboxHostsPath :: "string \<Rightarrow> string"
  getSandboxResolvPath :: "string \<Rightarrow> string"
  isInMounts :: "string \<Rightarrow> Mount list \<Rightarrow> bool"
  isRootReadonly :: "('w, 'x) Spec \<Rightarrow> bool"
  setUserStr :: "('w, 'x) Spec \<Rightarrow> string \<Rightarrow> error option \<times> ('w, 'x) Spec"
  HostDevices :: "error + HostDevice list"
  Stat_IsNotExist :: "'fs \<Rightarrow> string \<Rightarrow> bool"
  MkdirAll :: "'fs \<Rightarrow> string \<Rightarrow> error option \<times> 'fs"

text \<open>
  The loop of \<^verbatim>\<open>updateSandboxMounts\<close> over \<^verbatim>\<open>spec.Mounts\<close>, from some index on: the
  argument is the rest of the mounts, the result is the error, that rest as the loop
  leaves it, and the file system. A mount is rewritten in place before the directory
  is looked for, so it stays rewritten when \<^verbatim>\<open>MkdirAll\<close> fails.
\<close>

fun updateSandboxMounts_from ::
  "('w, 'x, 'fs) guest_env \<Rightarrow> string \<Rightarrow> 'fs \<Rightarrow> Mount list \<Rightarrow>
     error option \<times> Mount list \<times> 'fs" where
  "updateSandboxMounts_from env sbid fs [] = (None, [], fs)"
| "updateSandboxMounts_from env sbid fs (m # ms) =
     (if strings_HasPrefix (Source m) ''sandbox://'' then
        (let mountsDir = getSandboxMountsDir env sbid;
             subPath = strings_TrimPrefix (Source m) ''sandbox://'';
             sandboxSource = filepath_Join [mountsDir, subPath]
         in if \<not> strings_HasPrefix sandboxSource mountsDir
            then (Some (Errorf
                          ''mount path %v for mount %v is not within sandbox's mounts dir''
                          [Str sandboxSource, Str (Source m)]),
                  m # ms, fs)
            else
              (let m' = m\<lparr>Source := sandboxSource\<rparr>
               in if Stat_IsNotExist env fs sandboxSource
                  then (case MkdirAll env fs sandboxSource of
                          (Some err, fs') \<Rightarrow> (Some err, m' # ms, fs')
                        | (None, fs') \<Rightarrow>
                            (case updateSandboxMounts_from env sbid fs' ms of
                               (e, ms', fs'') \<Rightarrow> (e, m' # ms', fs'')))
                  else (case updateSandboxMounts_from env sbid fs ms of
                          (e, ms', fs') \<Rightarrow> (e, m' # ms', fs'))))
      else (case updateSandboxMounts_from env sbid fs ms of
              (e, ms', fs') \<Rightarrow> (e, m # ms', fs')))"

definition updateSandboxMounts ::
  "('w, 'x, 'fs) guest_env \<Rightarrow> string \<Rightarrow> 'fs \<Rightarrow> ('w, 'x) Spec \<Rightarrow>
     error option \<times> ('w, 'x) Spec \<times> 'fs" where
  "updateSandboxMounts env sbid fs spec =
    (case updateSandboxMounts_from env sbid fs (Mounts spec) of
       (e, ms, fs') \<Rightarrow> (e, spec\<lparr>Mounts := ms\<rparr>, fs'))"

text \<open>
  The three blocks of \<^verbatim>\<open>setupWorkloadContainerSpec\<close> that add \<^verbatim>\<open>/etc/hostname\<close>,
  \<^verbatim>\<open>/etc/hosts\<close> and \<^verbatim>\<open>/etc/resolv.conf\<close> differ in the destination and the source
  only; \<open>add_bind_mount\<close> is one such block.
\<close>

definition add_bind_mount ::
  "('w, 'x, 'fs) guest_env \<Rightarrow> string \<Rightarrow> string \<Rightarrow> ('w, 'x) Spec \<Rightarrow> ('w, 'x) Spec" where
  "add_bind_mount env destination source spec =
    (if \<not> isInMounts env destination (Mounts spec) then
       (let mt = \<lparr>Destination = destination, Type = ''bind'', Source = source,
                  Options = [''bind'']\<rparr>;
            mt = (if isRootReadonly env spec then mt\<lparr>Options := Options mt @ [''ro'']\<rparr>
                  else mt)
        in spec\<lparr>Mounts := Mounts spec @ [mt]\<rparr>)
     else spec)"

text \<open>
  The inner loop over \<^verbatim>\<open>spec.Linux.Devices\<close>: the first device with the path of \<open>rd\<close>
  is replaced by \<open>rd\<close> and the loop stops (\<^verbatim>\<open>found\<close>); the warning it may log is left
  out.
\<close>

fun replace_device :: "LinuxDevice \<Rightarrow> LinuxDevice list \<Rightarrow> bool \<times> LinuxDevice list" where
  "replace_device rd [] = (False, [])"
| "replace_device rd (dev # devs) =
     (if Path dev = Path rd then (True, rd # devs)
      else (case replace_device rd devs of (found, devs') \<Rightarrow> (found, dev # devs')))"

text \<open>The loop over the host devices, on the value of \<^verbatim>\<open>spec.Linux.Devices\<close>.\<close>

fun add_host_devices :: "HostDevice list \<Rightarrow> LinuxDevice list \<Rightarrow> LinuxDevice list" where
  "add_host_devices [] devs = devs"
| "add_host_devices (hostDevice # rest) devs =
     (let rd = \<lparr>Path = HostPath_dev hostDevice, DeviceType = HostType hostDevice,
                Major = HostMajor hostDevice, Minor = HostMinor hostDevice,
                UID = Some (Uid hostDevice), GID = Some (Gid hostDevice)\<rparr>
      in if HostMajor hostDevice = 0 \<and> HostMinor hostDevice = 0
         then add_host_devices rest devs
         else (case replace_device rd devs of
                 (found, devs') \<Rightarrow>
                   add_host_devices rest (if \<not> found then devs' @ [rd] else devs')))"

text \<open>
  The block for a privileged container, after \<^verbatim>\<open>devices.HostDevices()\<close> has returned
  \<open>hostDevices\<close>. The block dereferences \<^verbatim>\<open>spec.Linux\<close> (in the loop, for a host
  device that is not skipped, and in the assignment after the loop) and
  \<^verbatim>\<open>spec.Linux.Resources\<close> (in the assignment): when one of them is nil the function
  panics.
\<close>

definition add_privileged_devices ::
  "HostDevice list \<Rightarrow> ('w, 'x) Spec \<Rightarrow> ('w, 'x) Spec outcome" where
  "add_privileged_devices hostDevices spec =
    (case Linux spec of
       None \<Rightarrow> Panic
     | Some l \<Rightarrow>
         (case Resources l of
            None \<Rightarrow> Panic
          | Some r \<Rightarrow>
              Return (spec\<lparr>Linux := Some
                (l\<lparr>Devices := add_host_devices hostDevices (Devices l),
                   Resources := Some
                     (r\<lparr>ResourcesDevices := [\<lparr>Allow = True, Access = ''rwm''\<rparr>]\<rparr>)\<rparr>)\<rparr>)))"

text \<open>The end of \<^verbatim>\<open>setupWorkloadContainerSpec\<close>, from the annotation
  \<^verbatim>\<open>io.microsoft.lcow.userstr\<close> on.\<close>

definition finish_workload_spec ::
  "('w, 'x, 'fs) guest_env \<Rightarrow> ('w, 'x) Spec \<Rightarrow> error option \<times> ('w, 'x) Spec" where
  "finish_workload_spec env spec =
    (case Annotations spec ''io.microsoft.lcow.userstr'' of
       Some userstr \<Rightarrow>
         (case setUserStr env spec userstr of
            (Some err, spec') \<Rightarrow> (Some err, spec')
          | (None, spec') \<Rightarrow> (None, spec'\<lparr>Windows := None\<rparr>))
     | None \<Rightarrow> (None, spec\<lparr>Windows := None\<rparr>))"

text \<open>
  \<^verbatim>\<open>setupWorkloadContainerSpec\<close> returns its error, the spec as it leaves it (the
  caller's spec is changed in place) and the file system, or panics. The container
  identifier \<^verbatim>\<open>id\<close> is \<open>cid\<close>. The trace span and the log lines are left out.
\<close>

definition setupWorkloadContainerSpec ::
  "('w, 'x, 'fs) guest_env \<Rightarrow> 'fs \<Rightarrow> string \<Rightarrow> string \<Rightarrow> ('w, 'x) Spec \<Rightarrow>
     (error option \<times> ('w, 'x) Spec \<times> 'fs) outcome" where
  "setupWorkloadContainerSpec env fs sbid cid spec =
    (if Hostname spec \<noteq> [] then
       Return (Some (Errorf ''workload container must not change hostname: %s''
                       [Str (Hostname spec)]), spec, fs)
     else
       (case updateSandboxMounts env sbid fs spec of
          (Some err, spec1, fs1) \<Rightarrow>
            Return (Some (Wrapf err
                      ''failed to update sandbox mounts for container %v in sandbox %v''
                      [Str cid, Str sbid]), spec1, fs1)
        | (None, spec1, fs1) \<Rightarrow>
            (let spec2 = add_bind_mount env ''/etc/hostname''
                           (getSandboxHostnamePath env sbid) spec1;
                 spec3 = add_bind_mount env ''/etc/hosts''
                           (getSandboxHostsPath env sbid) spec2;
                 spec4 = add_bind_mount env ''/etc/resolv.conf''
                           (getSandboxResolvPath env sbid) spec3
             in if Annotations spec4 ''io.microsoft.virtualmachine.lcow.privileged''
                     = Some ''true''
                then (case HostDevices env of
                        Inl err \<Rightarrow> Return (Some err, spec4, fs1)
                      | Inr hostDevices \<Rightarrow>
                          (case add_privileged_devices hostDevices spec4 of
                             Panic \<Rightarrow> Panic
                           | Return spec5 \<Rightarrow>
                               (case finish_workload_spec env spec5 of
                                  (e, spec6) \<Rightarrow> Return (e, spec6, fs1))))
                else (case finish_workload_spec env spec4 of
                        (e, spec6) \<Rightarrow> Return (e, spec6, fs1)))))"

text \<open>
  An environment at concrete inputs. The directories of a sandbox are laid out under
  \<^verbatim>\<open>/run/gcs/c/<sandbox id>\<close>, the mounts directory being \<^verbatim>\<open>sandboxMounts\<close> there. The
  file system is the list of the directories that exist, and \<^verbatim>\<open>MkdirAll\<close> succeeds. A
  mount is found by its destination; the root is writable; there are no host devices.
\<close>

definition guest_env1 :: "(unit, unit, string list) guest_env" where
  "guest_env1 =
    \<lparr>getSandboxMountsDir = (\<lambda>sbid. filepath_Join [''/run/gcs/c'', sbid, ''sandboxMounts'']),
     getSandboxHostnamePath = (\<lambda>sbid. filepath_Join [''/run/gcs/c'', sbid, ''hostname'']),
     getSandboxHostsPath = (\<lambda>sbid. filepath_Join [''/run/gcs/c'', sbid, ''hosts'']),
     getSandboxResolvPath = (\<lambda>sbid. filepath_Join [''/run/gcs/c'', sbid, ''resolv.conf'']),
     isInMounts = (\<lambda>target mounts. target \<in> set (map Destination mounts)),
     isRootReadonly = (\<lambda>spec. False),
     setUserStr = (\<lambda>spec userstr. (None, spec)),
     HostDevices = Inr [],
     Stat_IsNotExist = (\<lambda>fs p. p \<notin> set fs),
     MkdirAll = (\<lambda>fs p. (None, p # fs))\<rparr>"

definition spec_escaping :: "(unit, unit) Spec" where
  "spec_escaping =
    \<lparr>Hostname = [],
     Mounts = [\<lparr>Destination = ''/data'', Type = ''bind'',
                Source = ''sandbox://../sandboxMountsX/secret'', Options = [''rbind'']\<rparr>],
     Annotations = Map.empty,
     Linux = None,
     Windows = Some (),
     Other = ()\<rparr>"

definition spec_hostname :: "(unit, unit) Spec" where
  "spec_hostname = spec_escaping\<lparr>Hostname := ''web-1''\<rparr>"


section \<open>Properties of the string functions\<close>

lemma strings_HasPrefix_prefix: "strings_HasPrefix s pre \<longleftrightarrow> prefix pre s"
proof
  assume "strings_HasPrefix s pre"
  then have "take (length pre) s = pre"
    by (simp add: strings_HasPrefix_def)
  then have "s = pre @ drop (length pre) s"
    by (metis append_take_drop_id)
  then show "prefix pre s"
    by (metis prefixI)
next
  assume "prefix pre s"
  then obtain zs where "s = pre @ zs"
    by (auto simp: prefix_def)
  then show "strings_HasPrefix s pre"
    by (simp add: strings_HasPrefix_def)
qed

lemma strings_Contains_sublist: "strings_Contains s substr \<longleftrightarrow> sublist substr s"
  by (induction s) (auto simp: strings_HasPrefix_prefix sublist_Cons_right)

lemma strings_Contains_iff:
  "strings_Contains s substr \<longleftrightarrow> (\<exists>before after. s = before @ substr @ after)"
  by (simp add: strings_Contains_sublist sublist_def)

section \<open>The serve loop's error\<close>

text \<open>
  Claim C2. Whatever error \<open>e\<close> the serve loop returns, \<open>trapClosedConnErr\<close> gives nil
  exactly when \<open>e\<close> is nil or the message of \<open>e\<close> contains
  \<^verbatim>\<open>use of closed network connection\<close>, and gives \<open>e\<close> itself otherwise. The serving
  task ends by closing its listener when the trapped result is nil, and ends the
  hosting process with the error when it is not.
\<close>

theorem trapClosedConnErr_classification:
  "(trapClosedConnErr Sprintf e = None \<longleftrightarrow>
      e = None \<or>
      (\<exists>x before after. e = Some x \<and>
         Error_msg Sprintf x = before @ ''use of closed network connection'' @ after))
   \<and> (trapClosedConnErr Sprintf e \<noteq> None \<longrightarrow> trapClosedConnErr Sprintf e = e)
   \<and> (trapClosedConnErr Sprintf e = None \<longrightarrow> serve_task Sprintf e = Listener_closed)
   \<and> (\<forall>err. trapClosedConnErr Sprintf e = Some err \<longrightarrow>
         serve_task Sprintf e = Process_exit err)
   \<and> setupAndServe Sprintf caAddr None None e = (None, Some (serve_task Sprintf e))"
proof (cases e)
  case None
  then show ?thesis
    by (simp add: trapClosedConnErr_def serve_task_def setupAndServe_def)
next
  case (Some x)
  then show ?thesis
    by (simp add: trapClosedConnErr_def serve_task_def setupAndServe_def
        strings_Contains_iff)
qed

theorem trapClosedConnErr_classification_witness:
  "trapClosedConnErr (\<lambda>f a. f)
      (Some (ErrorString ''accept pipe: use of closed network connection'')) = None
   \<and> serve_task (\<lambda>f a. f)
      (Some (ErrorString ''accept pipe: use of closed network connection'')) = Listener_closed
   \<and> trapClosedConnErr (\<lambda>f a. f) (Some (ErrorString ''unexpected EOF''))
      = Some (ErrorString ''unexpected EOF'')
   \<and> serve_task (\<lambda>f a. f) (Some (ErrorString ''unexpected EOF''))
      = Process_exit (ErrorString ''unexpected EOF'')"
proof -
  have closed: "Error_msg (\<lambda>f a. f)
      (ErrorString ''accept pipe: use of closed network connection'')
      = ''accept pipe: '' @ ''use of closed network connection'' @ []"
    by simp
  have other: "trapClosedConnErr (\<lambda>f a. f) (Some (ErrorString ''unexpected EOF''))
      = Some (ErrorString ''unexpected EOF'')"
    by (simp add: trapClosedConnErr_def strings_HasPrefix_def)
  from closed other show ?thesis
    using trapClosedConnErr_classification
        [of "\<lambda>f a. f" "Some (ErrorString ''accept pipe: use of closed network connection'')"]
      trapClosedConnErr_classification
        [of "\<lambda>f a. f" "Some (ErrorString ''unexpected EOF'')"]
    by blast
qed


section \<open>AddNIC and DeleteNIC\<close>

text \<open>
  Claim C5. When the endpoint name does not resolve, \<open>AddNIC\<close> returns a nil response
  and the resolution error wrapped with the endpoint name, and the only call it has
  made is the lookup: the namespace attach is not invoked. When the name resolves (to
  an endpoint that has a namespace, which the attach needs) and the attach succeeds,
  \<open>AddNIC\<close> returns an empty response and a nil error, and the attach was invoked once,
  with the endpoint's namespace ID, the request's NIC ID and the endpoint.
\<close>

theorem AddNIC_resolution_failure_and_success:
  "(GetHNSEndpointByName ca (EndpointName req) = Inl err \<longrightarrow>
      returned (AddNIC ca req) =
        Return (None, Some (Wrapf err ''failed to get endpoint with name %q''
                              [Str (EndpointName req)]))
      \<and> calls (AddNIC ca req) = [Call_GetHNSEndpointByName (EndpointName req)])
   \<and> (GetHNSEndpointByName ca (EndpointName req) = Inr endpoint
        \<and> Namespace endpoint = Some ns
        \<and> AddEndpointToNSWithID ca (ID ns) (NicID req) endpoint = None \<longrightarrow>
      returned (AddNIC ca req) = Return (Some AddNICInternalResponse, None)
      \<and> calls (AddNIC ca req) =
          [Call_GetHNSEndpointByName (EndpointName req),
           Call_AddEndpointToNSWithID (ID ns) (NicID req) endpoint])"
  by (simp add: AddNIC_def Let_def)

theorem AddNIC_resolution_failure_and_success_witness:
  "returned (AddNIC nic_env_ok req_missing) =
      Return (None, Some (Wrapf (ErrorString ''Endpoint not found'')
                            ''failed to get endpoint with name %q'' [Str ''eth-none'']))
   \<and> calls (AddNIC nic_env_ok req_missing) = [Call_GetHNSEndpointByName ''eth-none'']
   \<and> returned (AddNIC nic_env_ok req1) = Return (Some AddNICInternalResponse, None)
   \<and> calls (AddNIC nic_env_ok req1) =
       [Call_GetHNSEndpointByName ''eth-test'',
        Call_AddEndpointToNSWithID ''ns-1'' ''nic-1'' ep1]"
proof -
  have miss: "GetHNSEndpointByName nic_env_ok (EndpointName req_missing)
      = Inl (ErrorString ''Endpoint not found'')"
    by (simp add: nic_env_ok_def req_missing_def)
  have hit: "GetHNSEndpointByName nic_env_ok (EndpointName req1) = Inr ep1
      \<and> Namespace ep1 = Some \<lparr>ID = ''ns-1''\<rparr>
      \<and> AddEndpointToNSWithID nic_env_ok (ID \<lparr>ID = ''ns-1''\<rparr>) (NicID req1) ep1 = None"
    by (simp add: nic_env_ok_def req1_def ep1_def)
  have names: "EndpointName req_missing = ''eth-none''" "EndpointName req1 = ''eth-test''"
    "NicID req1 = ''nic-1''" "ID \<lparr>ID = ''ns-1''\<rparr> = ''ns-1''"
    by (simp_all add: req_missing_def req1_def)
  show ?thesis
    using miss hit
      AddNIC_resolution_failure_and_success
        [of nic_env_ok req_missing "ErrorString ''Endpoint not found''"]
      AddNIC_resolution_failure_and_success
        [of nic_env_ok req1 _ ep1 "\<lparr>ID = ''ns-1''\<rparr>"]
    unfolding names by blast
qed

text \<open>
  Claim C6, as stated, fails: when the attach on the UVM returns an error, \<open>AddNIC\<close>
  returns that very error, not a wrapping of it (and \<open>DeleteNIC\<close> does the same with the
  error of the remove). Only the error of the endpoint lookup is wrapped.
\<close>

theorem NIC_delegate_error_wrapped_counterexample:
  "GetHNSEndpointByName nic_env_fail (EndpointName req1) = Inr ep1
   \<and> AddEndpointToNSWithID nic_env_fail ''ns-1'' (NicID req1) ep1
       = Some (ErrorString ''guest request failed'')
   \<and> returned (AddNIC nic_env_fail req1)
       = Return (None, Some (ErrorString ''guest request failed''))
   \<and> returned (AddNIC nic_env_fail req1)
       \<noteq> Return (None, Some (Wrapf (ErrorString ''guest request failed'')
                               ''failed to get endpoint with name %q'' [Str ''eth-test'']))
   \<and> RemoveEndpointFromNS nic_env_fail ''ns-1'' ep1
       = Some (ErrorString ''guest request failed'')
   \<and> returned (DeleteNIC nic_env_fail req1)
       = Return (None, Some (ErrorString ''guest request failed''))
   \<and> returned (DeleteNIC nic_env_fail req1)
       \<noteq> Return (None, Some (Wrapf (ErrorString ''guest request failed'')
                               ''failed to get endpoint with name %q'' [Str ''eth-test'']))"
  by (simp add: AddNIC_def DeleteNIC_def nic_env_fail_def req1_def ep1_def)

text \<open>
  Claim C6, amended. For every \<open>AddNIC\<close> or \<open>DeleteNIC\<close> request in which the delegated
  operation (the namespace attach or remove on the UVM) returns an error, the RPC
  caller gets a nil response and that delegate error itself, unchanged and not
  wrapped. Only the error of the endpoint lookup is wrapped with the endpoint name:
  when the lookup fails, each of the two returns a nil response and the lookup error
  wrapped with the format \<^verbatim>\<open>failed to get endpoint with name %q\<close> and the endpoint
  name.
\<close>

theorem NIC_delegate_error_returned_unchanged:
  "(GetHNSEndpointByName ca (EndpointName req) = Inr endpoint
        \<and> Namespace endpoint = Some ns
        \<and> AddEndpointToNSWithID ca (ID ns) (NicID req) endpoint = Some err \<longrightarrow>
      returned (AddNIC ca req) = Return (None, Some err))
   \<and> (GetHNSEndpointByName ca (EndpointName req) = Inr endpoint
        \<and> Namespace endpoint = Some ns
        \<and> RemoveEndpointFromNS ca (ID ns) endpoint = Some err \<longrightarrow>
      returned (DeleteNIC ca req) = Return (None, Some err))
   \<and> (GetHNSEndpointByName ca (EndpointName req) = Inl err \<longrightarrow>
      returned (AddNIC ca req) =
        Return (None, Some (Wrapf err ''failed to get endpoint with name %q''
                              [Str (EndpointName req)]))
      \<and> returned (DeleteNIC ca req) =
        Return (None, Some (Wrapf err ''failed to get endpoint with name %q''
                              [Str (EndpointName req)])))"
proof (intro conjI impI)
  assume "GetHNSEndpointByName ca (EndpointName req) = Inr endpoint
      \<and> Namespace endpoint = Some ns
      \<and> AddEndpointToNSWithID ca (ID ns) (NicID req) endpoint = Some err"
  then show "returned (AddNIC ca req) = Return (None, Some err)"
    by (simp add: AddNIC_def Let_def)
next
  assume "GetHNSEndpointByName ca (EndpointName req) = Inr endpoint
      \<and> Namespace endpoint = Some ns
      \<and> RemoveEndpointFromNS ca (ID ns) endpoint = Some err"
  then show "returned (DeleteNIC ca req) = Return (None, Some err)"
    by (simp add: DeleteNIC_def Let_def)
next
  assume lookup: "GetHNSEndpointByName ca (EndpointName req) = Inl err"
  then show "returned (AddNIC ca req) =
      Return (None, Some (Wrapf err ''failed to get endpoint with name %q''
                            [Str (EndpointName req)]))"
    by (simp add: AddNIC_def Let_def)
  from lookup show "returned (DeleteNIC ca req) =
      Return (None, Some (Wrapf err ''failed to get endpoint with name %q''
                            [Str (EndpointName req)]))"
    by (simp add: DeleteNIC_def Let_def)
qed

theorem NIC_delegate_error_returned_unchanged_witness:
  "returned (AddNIC nic_env_fail req1)
       = Return (None, Some (ErrorString ''guest request failed''))
   \<and> returned (DeleteNIC nic_env_fail req1)
       = Return (None, Some (ErrorString ''guest request failed''))
   \<and> returned (AddNIC nic_env_fail req_missing)
       = Return (None, Some (Wrapf (ErrorString ''Endpoint not found'')
                               ''failed to get endpoint with name %q'' [Str ''eth-none'']))
   \<and> returned (DeleteNIC nic_env_fail req_missing)
       = Return (None, Some (Wrapf (ErrorString ''Endpoint not found'')
                               ''failed to get endpoint with name %q'' [Str ''eth-none'']))"
proof -
  have hyp: "GetHNSEndpointByName nic_env_fail (EndpointName req1) = Inr ep1
      \<and> Namespace ep1 = Some \<lparr>ID = ''ns-1''\<rparr>
      \<and> AddEndpointToNSWithID nic_env_fail (ID \<lparr>ID = ''ns-1''\<rparr>) (NicID req1) ep1
          = Some (ErrorString ''guest request failed'')
      \<and> RemoveEndpointFromNS nic_env_fail (ID \<lparr>ID = ''ns-1''\<rparr>) ep1
          = Some (ErrorString ''guest request failed'')"
    by (simp add: nic_env_fail_def req1_def ep1_def)
  have miss: "GetHNSEndpointByName nic_env_fail (EndpointName req_missing)
      = Inl (ErrorString ''Endpoint not found'')"
    by (simp add: nic_env_fail_def req_missing_def)
  have name: "EndpointName req_missing = ''eth-none''"
    by (simp add: req_missing_def)
  show ?thesis
    using hyp miss
      NIC_delegate_error_returned_unchanged
        [of nic_env_fail req1 ep1 "\<lparr>ID = ''ns-1''\<rparr>" "ErrorString ''guest request failed''"]
      NIC_delegate_error_returned_unchanged
        [of nic_env_fail req_missing _ _ "ErrorString ''Endpoint not found''"]
    unfolding name by blast
qed

text \<open>
  Claim C9. Two \<open>DeleteNIC\<close> requests that differ at most in their NIC ID make the same
  calls (the lookup of the endpoint name and, if it resolves, the namespace remove with
  the endpoint's namespace ID and the endpoint) and return the same result. The NIC ID
  reaches only the log entry.
\<close>

theorem DeleteNIC_independent_of_NicID:
  assumes "ContainerID r1 = ContainerID r2" and "EndpointName r1 = EndpointName r2"
  shows "returned (DeleteNIC ca r1) = returned (DeleteNIC ca r2)
    \<and> calls (DeleteNIC ca r1) = calls (DeleteNIC ca r2)
    \<and> calls (DeleteNIC ca r1) =
        Call_GetHNSEndpointByName (EndpointName r1) #
        (case GetHNSEndpointByName ca (EndpointName r1) of
           Inl err \<Rightarrow> []
         | Inr endpoint \<Rightarrow>
             (case Namespace endpoint of
                None \<Rightarrow> []
              | Some ns \<Rightarrow> [Call_RemoveEndpointFromNS (ID ns) endpoint]))"
  using assms
  by (simp add: DeleteNIC_def Let_def split: sum.splits option.splits)

theorem DeleteNIC_independent_of_NicID_witness:
  "returned (DeleteNIC nic_env_ok req1)
     = returned (DeleteNIC nic_env_ok (req1\<lparr>NicID := ''nic-2''\<rparr>))
   \<and> calls (DeleteNIC nic_env_ok req1)
     = calls (DeleteNIC nic_env_ok (req1\<lparr>NicID := ''nic-2''\<rparr>))
   \<and> calls (DeleteNIC nic_env_ok req1)
     = [Call_GetHNSEndpointByName ''eth-test'', Call_RemoveEndpointFromNS ''ns-1'' ep1]
   \<and> NicID req1 \<noteq> NicID (req1\<lparr>NicID := ''nic-2''\<rparr>)"
proof -
  have same: "ContainerID req1 = ContainerID (req1\<lparr>NicID := ''nic-2''\<rparr>)"
    "EndpointName req1 = EndpointName (req1\<lparr>NicID := ''nic-2''\<rparr>)"
    by simp_all
  have there: "GetHNSEndpointByName nic_env_ok ''eth-test'' = Inr ep1"
    "Namespace ep1 = Some \<lparr>ID = ''ns-1''\<rparr>" "EndpointName req1 = ''eth-test''"
    "NicID req1 = ''nic-1''"
    by (simp_all add: nic_env_ok_def req1_def ep1_def)
  show ?thesis
    using DeleteNIC_independent_of_NicID [OF same, of nic_env_ok]
    by (auto simp: there)
qed


section \<open>Properties of filepath.Split\<close>






section \<open>Share\<close>

text \<open>The path of \<open>Share\<close> through the Windows branch, case by case.\<close>

lemma Share_windows_no_share:
  assumes "OS uvm = ''windows''"
    and "AddVSMB uvm reqHostPath (DefaultVSMBOptions uvm readOnly) = Inl e"
  shows "Share uvm reqHostPath reqUVMPath readOnly =
    (Some e, [Call_AddVSMB reqHostPath (DefaultVSMBOptions uvm readOnly)])"
  using assms by (simp add: Share_def)

lemma Share_windows_no_path:
  assumes "OS uvm = ''windows''"
    and "AddVSMB uvm reqHostPath (DefaultVSMBOptions uvm readOnly) = Inr vsmbShare"
    and "GetVSMBUvmPath uvm reqHostPath readOnly = Inl e"
  shows "Share uvm reqHostPath reqUVMPath readOnly =
    (Some e, [Call_AddVSMB reqHostPath (DefaultVSMBOptions uvm readOnly),
              Call_GetVSMBUvmPath reqHostPath readOnly,
              Call_Release_VSMB vsmbShare])"
  using assms by (simp add: Share_def deferred_release_def)

lemma Share_windows_request:
  assumes "OS uvm = ''windows''"
    and "AddVSMB uvm reqHostPath (DefaultVSMBOptions uvm readOnly) = Inr vsmbShare"
    and "GetVSMBUvmPath uvm reqHostPath readOnly = Inr sharePath"
  shows "Share uvm reqHostPath reqUVMPath readOnly =
    (SendGuestRequest uvm
       \<lparr>ResourceType = ResourceTypeMappedDirectory, RequestType = Add,
        Settings = \<lparr>HostPath = sharePath, ContainerPath = reqUVMPath,
                    ReadOnly = readOnly\<rparr>\<rparr>,
     [Call_AddVSMB reqHostPath (DefaultVSMBOptions uvm readOnly),
      Call_GetVSMBUvmPath reqHostPath readOnly,
      Call_GuestRequest
        \<lparr>ResourceType = ResourceTypeMappedDirectory, RequestType = Add,
         Settings = \<lparr>HostPath = sharePath, ContainerPath = reqUVMPath,
                     ReadOnly = readOnly\<rparr>\<rparr>])"
  using assms by (simp add: Share_def deferred_release_def Let_def split: option.splits)

lemma Share_other_no_stat:
  assumes "OS uvm \<noteq> ''windows''" and "os_Stat uvm reqHostPath = Inl e"
  shows "Share uvm reqHostPath reqUVMPath readOnly =
    (Some (Errorf ''could not open '%s' path on host: %s'' [Str reqHostPath, Err e]),
     [Call_Stat reqHostPath])"
  using assms by (simp add: Share_def)


text \<open>
  Claim C1 fails on the code when the step that fails is the guest request. The VSMB
  share is allocated and the guest path computed; the guest refuses the request;
  \<open>Share\<close> returns the guest's error, and its trace ends with the request: no release
  of the share follows. (When the computation of the guest path fails instead, the
  share is released, see \<open>Share_windows_no_path\<close>.)
\<close>

theorem Share_guest_request_failure_leaves_share:
  "AddVSMB uvm_windows ''C:/data'' (DefaultVSMBOptions uvm_windows False) = Inr ''C:/data''
   \<and> Share uvm_windows ''C:/data'' ''C:/mnt/data'' False =
       (Some (ErrorString ''guest request failed''),
        [Call_AddVSMB ''C:/data'' False,
         Call_GetVSMBUvmPath ''C:/data'' False,
         Call_GuestRequest
           \<lparr>ResourceType = ResourceTypeMappedDirectory, RequestType = Add,
            Settings = \<lparr>HostPath = ''vsmb-C:/data'', ContainerPath = ''C:/mnt/data'',
                        ReadOnly = False\<rparr>\<rparr>])
   \<and> Call_Release_VSMB ''C:/data''
       \<notin> set (snd (Share uvm_windows ''C:/data'' ''C:/mnt/data'' False))"
  by (simp add: Share_def uvm_windows_def deferred_release_def)



text \<open>
  Claim C4, as stated, fails: not every call on a Windows guest sends a guest request,
  and not every call on another guest asks for a Plan9 share. When the VSMB allocation
  fails, \<open>Share\<close> returns after that one call; when \<^verbatim>\<open>os.Stat\<close> fails on a Linux guest,
  \<open>Share\<close> returns after it.
\<close>

theorem Share_one_guest_request_counterexample:
  "OS uvm_windows_no_share = ''windows''
   \<and> Share uvm_windows_no_share ''C:/data'' ''C:/mnt/data'' False =
       (Some (ErrorString ''access denied''), [Call_AddVSMB ''C:/data'' False])
   \<and> guest_requests (snd (Share uvm_windows_no_share ''C:/data'' ''C:/mnt/data'' False)) = []
   \<and> OS uvm_linux \<noteq> ''windows''
   \<and> snd (Share uvm_linux ''C:/data/none'' ''/mnt/conf'' True) = [Call_Stat ''C:/data/none'']
   \<and> filter is_Plan9_call (snd (Share uvm_linux ''C:/data/none'' ''/mnt/conf'' True)) = []"
  by (simp add: Share_def uvm_windows_no_share_def uvm_windows_def uvm_linux_def)

text \<open>
  Claim C4, amended. The mechanism follows from the OS family of the UVM alone. On a
  Windows guest every call starts by asking for a VSMB share of the host path, with the
  default options for the read-only flag, and makes no Plan9 call; it sends exactly one
  guest request, \<^verbatim>\<open>{MappedDirectory, Add, {the computed guest-visible path, the
  requested guest path, readOnly}}\<close>, when the allocation and the computation of that
  path succeed, and none otherwise. On any other guest every call makes no VSMB call
  and sends no guest request; it asks for a Plan9 share once when \<^verbatim>\<open>os.Stat\<close> of the
  host path succeeds, and not at all otherwise.
\<close>

theorem Share_mechanism_by_OS:
  "(OS uvm = ''windows'' \<longrightarrow>
      take 1 (snd (Share uvm reqHostPath reqUVMPath readOnly)) =
        [Call_AddVSMB reqHostPath (DefaultVSMBOptions uvm readOnly)]
      \<and> filter is_Plan9_call (snd (Share uvm reqHostPath reqUVMPath readOnly)) = []
      \<and> guest_requests (snd (Share uvm reqHostPath reqUVMPath readOnly)) =
          (case AddVSMB uvm reqHostPath (DefaultVSMBOptions uvm readOnly) of
             Inl e \<Rightarrow> []
           | Inr vsmbShare \<Rightarrow>
               (case GetVSMBUvmPath uvm reqHostPath readOnly of
                  Inl e \<Rightarrow> []
                | Inr sharePath \<Rightarrow>
                    [\<lparr>ResourceType = ResourceTypeMappedDirectory, RequestType = Add,
                      Settings = \<lparr>HostPath = sharePath, ContainerPath = reqUVMPath,
                                  ReadOnly = readOnly\<rparr>\<rparr>])))
   \<and> (OS uvm \<noteq> ''windows'' \<longrightarrow>
      filter is_VSMB_call (snd (Share uvm reqHostPath reqUVMPath readOnly)) = []
      \<and> guest_requests (snd (Share uvm reqHostPath reqUVMPath readOnly)) = []
      \<and> length (filter is_Plan9_call (snd (Share uvm reqHostPath reqUVMPath readOnly))) =
          (case os_Stat uvm reqHostPath of Inl e \<Rightarrow> 0 | Inr st \<Rightarrow> 1))"
proof (intro conjI impI)
  assume win: "OS uvm = ''windows''"
  show "take 1 (snd (Share uvm reqHostPath reqUVMPath readOnly)) =
      [Call_AddVSMB reqHostPath (DefaultVSMBOptions uvm readOnly)]"
    using win by (simp add: Share_def Let_def split: sum.splits option.splits)
  show "filter is_Plan9_call (snd (Share uvm reqHostPath reqUVMPath readOnly)) = []"
    using win
    by (simp add: Share_def Let_def deferred_release_def split: sum.splits option.splits)
  show "guest_requests (snd (Share uvm reqHostPath reqUVMPath readOnly)) =
      (case AddVSMB uvm reqHostPath (DefaultVSMBOptions uvm readOnly) of
         Inl e \<Rightarrow> []
       | Inr vsmbShare \<Rightarrow>
           (case GetVSMBUvmPath uvm reqHostPath readOnly of
              Inl e \<Rightarrow> []
            | Inr sharePath \<Rightarrow>
                [\<lparr>ResourceType = ResourceTypeMappedDirectory, RequestType = Add,
                  Settings = \<lparr>HostPath = sharePath, ContainerPath = reqUVMPath,
                              ReadOnly = readOnly\<rparr>\<rparr>]))"
    using win
    by (simp add: Share_def Let_def deferred_release_def split: sum.splits option.splits)
next
  assume other: "OS uvm \<noteq> ''windows''"
  show "filter is_VSMB_call (snd (Share uvm reqHostPath reqUVMPath readOnly)) = []"
    using other
    by (simp add: Share_def Let_def deferred_release_def split: sum.splits prod.splits)
  show "guest_requests (snd (Share uvm reqHostPath reqUVMPath readOnly)) = []"
    using other
    by (simp add: Share_def Let_def deferred_release_def split: sum.splits prod.splits)
  show "length (filter is_Plan9_call (snd (Share uvm reqHostPath reqUVMPath readOnly))) =
      (case os_Stat uvm reqHostPath of Inl e \<Rightarrow> 0 | Inr st \<Rightarrow> 1)"
    using other
    by (simp add: Share_def Let_def deferred_release_def split: sum.splits prod.splits)
qed

theorem Share_mechanism_by_OS_witness:
  "guest_requests (snd (Share uvm_windows ''C:/data'' ''C:/mnt/data'' False)) =
     [\<lparr>ResourceType = ResourceTypeMappedDirectory, RequestType = Add,
       Settings = \<lparr>HostPath = ''vsmb-C:/data'', ContainerPath = ''C:/mnt/data'',
                   ReadOnly = False\<rparr>\<rparr>]
   \<and> take 1 (snd (Share uvm_windows ''C:/data'' ''C:/mnt/data'' False)) =
       [Call_AddVSMB ''C:/data'' False]
   \<and> filter is_Plan9_call (snd (Share uvm_windows ''C:/data'' ''C:/mnt/data'' False)) = []
   \<and> guest_requests (snd (Share uvm_linux ''C:/data/conf'' ''/mnt/conf'' True)) = []
   \<and> filter is_VSMB_call (snd (Share uvm_linux ''C:/data/conf'' ''/mnt/conf'' True)) = []
   \<and> length (filter is_Plan9_call (snd (Share uvm_linux ''C:/data/conf'' ''/mnt/conf'' True)))
       = 1"
proof -
  have win: "OS uvm_windows = ''windows''"
    "DefaultVSMBOptions uvm_windows False = False"
    "AddVSMB uvm_windows ''C:/data'' False = Inr ''C:/data''"
    "GetVSMBUvmPath uvm_windows ''C:/data'' False = Inr ''vsmb-C:/data''"
    by (simp_all add: uvm_windows_def)
  have lin: "OS uvm_linux \<noteq> ''windows''"
    "os_Stat uvm_linux ''C:/data/conf'' = Inr \<lparr>IsDir = True\<rparr>"
    by (simp_all add: uvm_linux_def)
  show ?thesis
    using Share_mechanism_by_OS [of uvm_windows "''C:/data''" "''C:/mnt/data''" False]
      Share_mechanism_by_OS [of uvm_linux "''C:/data/conf''" "''/mnt/conf''" True]
    by (simp add: win lin)
qed


section \<open>layerPathsToDescriptors\<close>

lemma layer_descriptor_Inr:
  "layer_descriptor env path = Inr d \<longleftrightarrow>
     (\<exists>g p. NameToGuid env (snd (filepath_Split (layer_paths env) path)) = Inr g
        \<and> UTF16PtrFromString env path = Inr p
        \<and> d = \<lparr>LayerId = g, Flags = 0, Pathp = p\<rparr>)"
  by (auto simp: layer_descriptor_def split: prod.splits sum.splits)

lemma layer_descriptor_Inl:
  "layer_descriptor env path = Inl err \<longleftrightarrow>
     NameToGuid env (snd (filepath_Split (layer_paths env) path)) = Inl err
     \<or> (\<exists>g. NameToGuid env (snd (filepath_Split (layer_paths env) path)) = Inr g
           \<and> UTF16PtrFromString env path = Inl err)"
  by (auto simp: layer_descriptor_def split: prod.splits sum.splits)

lemma layerPathsToDescriptors_from_all:
  "list_all2 (\<lambda>path d. layer_descriptor env path = Inr d) paths ds \<Longrightarrow>
     layerPathsToDescriptors_from env paths layers = (layers @ ds, None)"
proof (induction paths arbitrary: ds layers)
  case Nil
  then show ?case by simp
next
  case (Cons path paths)
  then obtain d ds' where "ds = d # ds'" and "layer_descriptor env path = Inr d"
    and "list_all2 (\<lambda>path d. layer_descriptor env path = Inr d) paths ds'"
    by (auto simp: list_all2_Cons1)
  with Cons.IH [of ds' "layers @ [d]"] show ?case
    by simp
qed

lemma layerPathsToDescriptors_from_first_failure:
  "list_all2 (\<lambda>path d. layer_descriptor env path = Inr d) done_paths ds \<Longrightarrow>
   layer_descriptor env path = Inl err \<Longrightarrow>
     layerPathsToDescriptors_from env (done_paths @ path # rest) layers = ([], Some err)"
proof (induction done_paths arbitrary: ds layers)
  case Nil
  then show ?case by simp
next
  case (Cons p ps)
  then obtain d ds' where "layer_descriptor env p = Inr d"
    and "list_all2 (\<lambda>path d. layer_descriptor env path = Inr d) ps ds'"
    by (auto simp: list_all2_Cons1)
  with Cons.IH [of ds' "layers @ [d]"] Cons.prems(2) show ?case
    by simp
qed

lemma layer_descriptors_split:
  "(\<exists>ds. list_all2 (\<lambda>path d. layer_descriptor env path = Inr d) paths ds)
   \<or> (\<exists>done_paths ds path err rest.
         paths = done_paths @ path # rest
         \<and> list_all2 (\<lambda>path d. layer_descriptor env path = Inr d) done_paths ds
         \<and> layer_descriptor env path = Inl err)"
proof (induction paths)
  case Nil
  then show ?case by simp
next
  case (Cons p ps)
  show ?case
  proof (cases "layer_descriptor env p")
    case (Inl err)
    then have "p # ps = [] @ p # ps
        \<and> list_all2 (\<lambda>path d. layer_descriptor env path = Inr d) [] []
        \<and> layer_descriptor env p = Inl err"
      by simp
    then show ?thesis by blast
  next
    case (Inr d)
    from Cons.IH show ?thesis
    proof
      assume "\<exists>ds. list_all2 (\<lambda>path d. layer_descriptor env path = Inr d) ps ds"
      then obtain ds where "list_all2 (\<lambda>path d. layer_descriptor env path = Inr d) ps ds"
        by blast
      with Inr have "list_all2 (\<lambda>path d. layer_descriptor env path = Inr d) (p # ps) (d # ds)"
        by simp
      then show ?thesis by blast
    next
      assume "\<exists>done_paths ds path err rest.
         ps = done_paths @ path # rest
         \<and> list_all2 (\<lambda>path d. layer_descriptor env path = Inr d) done_paths ds
         \<and> layer_descriptor env path = Inl err"
      then obtain done_paths ds path err rest where "ps = done_paths @ path # rest"
        and "list_all2 (\<lambda>path d. layer_descriptor env path = Inr d) done_paths ds"
        and "layer_descriptor env path = Inl err"
        by blast
      with Inr have "p # ps = (p # done_paths) @ path # rest
          \<and> list_all2 (\<lambda>path d. layer_descriptor env path = Inr d) (p # done_paths) (d # ds)
          \<and> layer_descriptor env path = Inl err"
        by simp
      then show ?thesis by blast
    qed
  qed
qed

text \<open>
  Claim C8. When for every path of the input both conversions succeed (the GUID of the
  last element of the path, which is the file part of \<^verbatim>\<open>filepath.Split\<close>, and the
  UTF-16 pointer of the path), \<open>layerPathsToDescriptors\<close> returns a nil error and a list
  as long as the input whose \<open>i\<close>-th descriptor has that GUID of the \<open>i\<close>-th path, flags
  0 and that pointer of the \<open>i\<close>-th path. When some conversion fails, it returns the
  empty list and the error of the first conversion that fails: the paths before that
  one convert, and for that path either the GUID fails, or the GUID succeeds and the
  pointer fails.
\<close>

theorem layerPathsToDescriptors_result:
  "((\<forall>path\<in>set paths.
        (\<exists>g. NameToGuid env (snd (filepath_Split (layer_paths env) path)) = Inr g)
        \<and> (\<exists>p. UTF16PtrFromString env path = Inr p)) \<longrightarrow>
      (\<exists>ds. layerPathsToDescriptors env paths = (ds, None)
         \<and> length ds = length paths
         \<and> (\<forall>i<length paths.
               NameToGuid env (snd (filepath_Split (layer_paths env) (paths ! i)))
                 = Inr (LayerId (ds ! i))
               \<and> Flags (ds ! i) = 0
               \<and> UTF16PtrFromString env (paths ! i) = Inr (Pathp (ds ! i)))))
   \<and> (\<not> (\<forall>path\<in>set paths.
        (\<exists>g. NameToGuid env (snd (filepath_Split (layer_paths env) path)) = Inr g)
        \<and> (\<exists>p. UTF16PtrFromString env path = Inr p)) \<longrightarrow>
      (\<exists>err done_paths path rest.
         layerPathsToDescriptors env paths = ([], Some err)
         \<and> paths = done_paths @ path # rest
         \<and> (\<forall>q\<in>set done_paths.
               (\<exists>g. NameToGuid env (snd (filepath_Split (layer_paths env) q)) = Inr g)
               \<and> (\<exists>p. UTF16PtrFromString env q = Inr p))
         \<and> (NameToGuid env (snd (filepath_Split (layer_paths env) path)) = Inl err
              \<or> (\<exists>g. NameToGuid env (snd (filepath_Split (layer_paths env) path)) = Inr g)
                  \<and> UTF16PtrFromString env path = Inl err)))"
proof -
  let ?ok = "\<lambda>path. (\<exists>g. NameToGuid env (snd (filepath_Split (layer_paths env) path)) = Inr g)
        \<and> (\<exists>p. UTF16PtrFromString env path = Inr p)"
  let ?conv = "\<lambda>path d. layer_descriptor env path = Inr d"
  have ok_iff: "?ok path \<longleftrightarrow> (\<exists>d. layer_descriptor env path = Inr d)" for path
    by (auto simp: layer_descriptor_Inr)
  have conv_ok: "list_all2 ?conv ps ds \<Longrightarrow> \<forall>q\<in>set ps. ?ok q" for ps ds
    unfolding ok_iff by (auto simp: list_all2_conv_all_nth in_set_conv_nth)
  from layer_descriptors_split [of env paths] show ?thesis
  proof
    assume "\<exists>ds. list_all2 ?conv paths ds"
    then obtain ds where all: "list_all2 ?conv paths ds"
      by blast
    then have res: "layerPathsToDescriptors env paths = (ds, None)"
      using layerPathsToDescriptors_from_all [of env paths ds "[]"]
      by (simp add: layerPathsToDescriptors_def)
    have len: "length ds = length paths"
      using all by (simp add: list_all2_lengthD)
    have each: "NameToGuid env (snd (filepath_Split (layer_paths env) (paths ! i)))
                 = Inr (LayerId (ds ! i))
               \<and> Flags (ds ! i) = 0
               \<and> UTF16PtrFromString env (paths ! i) = Inr (Pathp (ds ! i))"
      if "i < length paths" for i
    proof -
      from all that have "layer_descriptor env (paths ! i) = Inr (ds ! i)"
        by (simp add: list_all2_conv_all_nth)
      then show ?thesis
        by (auto simp: layer_descriptor_Inr)
    qed
    from conv_ok [OF all] res len each show ?thesis
      by blast
  next
    assume "\<exists>done_paths ds path err rest.
         paths = done_paths @ path # rest
         \<and> list_all2 ?conv done_paths ds
         \<and> layer_descriptor env path = Inl err"
    then obtain done_paths ds path err rest where split: "paths = done_paths @ path # rest"
      and before: "list_all2 ?conv done_paths ds"
      and fails: "layer_descriptor env path = Inl err"
      by blast
    from fails have not_ok: "\<not> ?ok path"
      unfolding ok_iff by simp
    with split have not_all: "\<not> (\<forall>path\<in>set paths. ?ok path)"
      by auto
    have res: "layerPathsToDescriptors env paths = ([], Some err)"
      using layerPathsToDescriptors_from_first_failure [OF before fails, of rest "[]"] split
      by (simp add: layerPathsToDescriptors_def)
    have which: "NameToGuid env (snd (filepath_Split (layer_paths env) path)) = Inl err
        \<or> (\<exists>g. NameToGuid env (snd (filepath_Split (layer_paths env) path)) = Inr g)
            \<and> UTF16PtrFromString env path = Inl err"
      using fails by (auto simp: layer_descriptor_Inl)
    from not_all res split conv_ok [OF before] which show ?thesis
      by blast
  qed
qed

theorem layerPathsToDescriptors_result_witness:
  "layerPathsToDescriptors layer_env1 [''C:/layers/base'', ''C:/layers/app''] =
     ([\<lparr>LayerId = ''base'', Flags = 0, Pathp = ''C:/layers/base''\<rparr>,
       \<lparr>LayerId = ''app'', Flags = 0, Pathp = ''C:/layers/app''\<rparr>], None)
   \<and> layerPathsToDescriptors layer_env1 [''C:/layers/base'', ''C:/layers/'', ''C:/x'']
       = ([], Some (ErrorString ''empty name''))"
proof -
  have s1: "filepath_Split drive_paths ''C:/layers/base'' = (''C:/layers/'', ''base'')"
    and s2: "filepath_Split drive_paths ''C:/layers/app'' = (''C:/layers/'', ''app'')"
    and s3: "filepath_Split drive_paths ''C:/layers/'' = (''C:/layers/'', [])"
    and s4: "filepath_Split drive_paths ''C:/x'' = (''C:/'', ''x'')"
    by (simp_all add: drive_paths_def filepath_Split_def)
  have env: "layer_paths layer_env1 = drive_paths"
    "NameToGuid layer_env1 = (\<lambda>n. if n = [] then Inl (ErrorString ''empty name'') else Inr n)"
    "UTF16PtrFromString layer_env1 =
       (\<lambda>s. if CHR 0x00 \<in> set s then Inl (ErrorString ''invalid argument'') else Inr s)"
    by (simp_all add: layer_env1_def)
  have good: "\<forall>path\<in>set [''C:/layers/base'', ''C:/layers/app''].
      (\<exists>g. NameToGuid layer_env1 (snd (filepath_Split (layer_paths layer_env1) path)) = Inr g)
      \<and> (\<exists>p. UTF16PtrFromString layer_env1 path = Inr p)"
    by (simp add: env s1 s2)
  have bad: "\<not> (\<forall>path\<in>set [''C:/layers/base'', ''C:/layers/'', ''C:/x''].
      (\<exists>g. NameToGuid layer_env1 (snd (filepath_Split (layer_paths layer_env1) path)) = Inr g)
      \<and> (\<exists>p. UTF16PtrFromString layer_env1 path = Inr p))"
    by (simp add: env s3)
  from good obtain ds where ds: "layerPathsToDescriptors layer_env1
        [''C:/layers/base'', ''C:/layers/app''] = (ds, None)"
    using layerPathsToDescriptors_result
      [of "[''C:/layers/base'', ''C:/layers/app'']" layer_env1]
    by blast
  from bad obtain err where err: "layerPathsToDescriptors layer_env1
        [''C:/layers/base'', ''C:/layers/'', ''C:/x''] = ([], Some err)"
    using layerPathsToDescriptors_result
      [of "[''C:/layers/base'', ''C:/layers/'', ''C:/x'']" layer_env1]
    by blast
  have "ds = [\<lparr>LayerId = ''base'', Flags = 0, Pathp = ''C:/layers/base''\<rparr>,
       \<lparr>LayerId = ''app'', Flags = 0, Pathp = ''C:/layers/app''\<rparr>]"
    using ds by (simp add: layerPathsToDescriptors_def layer_descriptor_def env s1 s2)
  moreover have "err = ErrorString ''empty name''"
    using err by (simp add: layerPathsToDescriptors_def layer_descriptor_def env s1 s3)
  ultimately show ?thesis
    using ds err by simp
qed


section \<open>The sandbox mounts\<close>

text \<open>What \<open>updateSandboxMounts\<close> guarantees. It keeps the number of mounts, and when it
  returns nil every mount is either as it was (its source has no \<^verbatim>\<open>sandbox://\<close>
  prefix) or has as its new source the join of the mounts directory and the rest of
  the old source, a string that starts with the mounts directory.\<close>

lemma updateSandboxMounts_from_length:
  "updateSandboxMounts_from env sbid fs ms = (e, ms', fs') \<Longrightarrow> length ms' = length ms"
proof (induction ms arbitrary: e ms' fs' fs)
  case Nil
  then show ?case by simp
next
  case (Cons m ms)
  then show ?case
    by (fastforce simp: Let_def split: if_splits prod.splits option.splits)
qed

lemma updateSandboxMounts_from_nil:
  "updateSandboxMounts_from env sbid fs ms = (None, ms', fs') \<Longrightarrow>
     list_all2
       (\<lambda>m m'. if strings_HasPrefix (Source m) ''sandbox://''
                then m' = m\<lparr>Source := filepath_Join [getSandboxMountsDir env sbid,
                                         strings_TrimPrefix (Source m) ''sandbox://'']\<rparr>
                     \<and> strings_HasPrefix (Source m') (getSandboxMountsDir env sbid)
                else m' = m)
       ms ms'"
proof (induction ms arbitrary: ms' fs' fs)
  case Nil
  then show ?case by simp
next
  case (Cons m ms)
  show ?case
  proof (cases "strings_HasPrefix (Source m) ''sandbox://''")
    case False
    with Cons.prems obtain rest where "ms' = m # rest"
      and "updateSandboxMounts_from env sbid fs ms = (None, rest, fs')"
      by (auto split: prod.splits)
    with Cons.IH False show ?thesis
      by simp
  next
    case True
    define src where "src = filepath_Join [getSandboxMountsDir env sbid,
        strings_TrimPrefix (Source m) ''sandbox://'']"
    from Cons.prems True have inside: "strings_HasPrefix src (getSandboxMountsDir env sbid)"
      by (auto simp: Let_def src_def split: if_splits)
    from Cons.prems True inside obtain rest fs1 where "ms' = m\<lparr>Source := src\<rparr> # rest"
      and "updateSandboxMounts_from env sbid fs1 ms = (None, rest, fs')"
      by (auto simp: Let_def src_def split: if_splits prod.splits option.splits)
    with Cons.IH True inside show ?thesis
      by (simp add: src_def)
  qed
qed

text \<open>
  Claim C7 fails on the code: a mount source can leave the mounts directory of the
  sandbox and still be accepted. The check of \<open>updateSandboxMounts\<close> is a comparison of
  strings (\<^verbatim>\<open>strings.HasPrefix(sandboxSource, mountsDir)\<close>), and a sibling directory
  whose name starts with the name of the mounts directory passes it. With the mounts
  directory \<^verbatim>\<open>/run/gcs/c/sb1/sandboxMounts\<close>, the source
  \<^verbatim>\<open>sandbox://../sandboxMountsX/secret\<close> is rewritten to
  \<^verbatim>\<open>/run/gcs/c/sb1/sandboxMountsX/secret\<close>, that directory is created, and nil is
  returned; the new source is neither the mounts directory nor below it.
\<close>

theorem updateSandboxMounts_sibling_directory_accepted:
  "getSandboxMountsDir guest_env1 ''sb1'' = ''/run/gcs/c/sb1/sandboxMounts''
   \<and> updateSandboxMounts guest_env1 ''sb1'' [] spec_escaping =
       (None,
        spec_escaping\<lparr>Mounts :=
          [\<lparr>Destination = ''/data'', Type = ''bind'',
            Source = ''/run/gcs/c/sb1/sandboxMountsX/secret'', Options = [''rbind'']\<rparr>]\<rparr>,
        [''/run/gcs/c/sb1/sandboxMountsX/secret''])
   \<and> ''/run/gcs/c/sb1/sandboxMountsX/secret'' \<noteq> ''/run/gcs/c/sb1/sandboxMounts''
   \<and> \<not> strings_HasPrefix ''/run/gcs/c/sb1/sandboxMountsX/secret''
         ''/run/gcs/c/sb1/sandboxMounts/''"
proof -
  have dir: "getSandboxMountsDir guest_env1 ''sb1'' = ''/run/gcs/c/sb1/sandboxMounts''"
    unfolding guest_env1_def by code_simp
  have trim: "strings_TrimPrefix ''sandbox://../sandboxMountsX/secret'' ''sandbox://''
      = ''../sandboxMountsX/secret''"
    by (simp add: strings_TrimPrefix_def strings_HasPrefix_def)
  have join: "filepath_Join [''/run/gcs/c/sb1/sandboxMounts'', ''../sandboxMountsX/secret'']
      = ''/run/gcs/c/sb1/sandboxMountsX/secret''"
    by code_simp
  have pre: "strings_HasPrefix ''sandbox://../sandboxMountsX/secret'' ''sandbox://''"
    "strings_HasPrefix ''/run/gcs/c/sb1/sandboxMountsX/secret''
       ''/run/gcs/c/sb1/sandboxMounts''"
    "\<not> strings_HasPrefix ''/run/gcs/c/sb1/sandboxMountsX/secret''
         ''/run/gcs/c/sb1/sandboxMounts/''"
    by (simp_all add: strings_HasPrefix_def)
  have fs: "Stat_IsNotExist guest_env1 [] p" "MkdirAll guest_env1 [] p = (None, [p])" for p
    by (simp_all add: guest_env1_def)
  have "updateSandboxMounts guest_env1 ''sb1'' [] spec_escaping =
       (None,
        spec_escaping\<lparr>Mounts :=
          [\<lparr>Destination = ''/data'', Type = ''bind'',
            Source = ''/run/gcs/c/sb1/sandboxMountsX/secret'', Options = [''rbind'']\<rparr>]\<rparr>,
        [''/run/gcs/c/sb1/sandboxMountsX/secret''])"
    by (simp add: updateSandboxMounts_def spec_escaping_def Let_def dir trim join pre fs
        del: filepath_Join.simps)
  with dir pre(3) show ?thesis
    by simp
qed


section \<open>The hostname of a workload container\<close>

text \<open>
  Claim C10. When the \<^verbatim>\<open>Hostname\<close> of the spec is not empty,
  \<open>setupWorkloadContainerSpec\<close> returns an error (it does not panic), and the spec and
  the file system are those it was given: no mount is rewritten or added, no device is
  added, and the Windows section stays.
\<close>

theorem setupWorkloadContainerSpec_hostname_rejected:
  assumes "Hostname spec \<noteq> []"
  shows "setupWorkloadContainerSpec env fs sbid cid spec =
    Return (Some (Errorf ''workload container must not change hostname: %s''
                    [Str (Hostname spec)]), spec, fs)"
  using assms by (simp add: setupWorkloadContainerSpec_def)

theorem setupWorkloadContainerSpec_hostname_rejected_witness:
  "setupWorkloadContainerSpec guest_env1 [] ''sb1'' ''c1'' spec_hostname =
     Return (Some (Errorf ''workload container must not change hostname: %s''
                     [Str ''web-1'']), spec_hostname, [])
   \<and> Mounts spec_hostname =
       [\<lparr>Destination = ''/data'', Type = ''bind'',
         Source = ''sandbox://../sandboxMountsX/secret'', Options = [''rbind'']\<rparr>]
   \<and> Windows spec_hostname = Some ()"
proof -
  have name: "Hostname spec_hostname = ''web-1''"
    by (simp add: spec_hostname_def)
  then have "Hostname spec_hostname \<noteq> []"
    by simp
  from setupWorkloadContainerSpec_hostname_rejected [OF this, of guest_env1 "[]" "''sb1''" "''c1''"]
  show ?thesis
    by (simp add: name spec_hostname_def spec_escaping_def)
qed

end
